theory Spec2Isabelle
  imports Main "HOL-Library.Sublist"
begin

section \<open>Python values and failures\<close>

text \<open>
  The dispatcher of \<^verbatim>\<open>timesearch_modules/__init__.py\<close> is modelled over strings as
  \<^typ>\<open>string\<close>: one \<^typ>\<open>char\<close> stands for one code point below 256, which covers every
  character of the help texts and command names. Python's unbounded integers are
  \<^typ>\<open>int\<close>. A raised exception is a value of \<open>exc\<close>, and a computation that may raise
  returns \<open>exc + 'a\<close> with \<open>Inl\<close> for the exception.
\<close>

datatype exc =
    IndexError
  | KeyError string
  | ValueError string
  | AttributeError string
  | SystemExit int
  | DatabaseNotFound string
  | OtherFailure string

text \<open>
  \<open>DatabaseNotFound msg\<close> is an instance of \<^verbatim>\<open>exceptions.DatabaseNotFound\<close> whose
  \<^verbatim>\<open>str(e)\<close> is \<open>msg\<close>; \<open>OtherFailure\<close> stands for an exception of any class the
  source never names.
\<close>

datatype pyval = PyNone | PyBool bool | PyInt int | PyStr string

section \<open>Text utilities\<close>

text \<open>\<^verbatim>\<open>li[index]\<close> on a list: a negative index counts from the end, an index outside
  the list raises IndexError.\<close>

definition getitem :: "'a list \<Rightarrow> int \<Rightarrow> exc + 'a" where
  "getitem li index =
     (if 0 \<le> index \<and> index < int (length li) then Inr (li ! nat index)
      else if index < 0 \<and> - int (length li) \<le> index then Inr (li ! nat (int (length li) + index))
      else Inl IndexError)"

text \<open>
  \<^verbatim>\<open>
  def listget(li, index, fallback=None):
      try:
          return li[index]
      except IndexError:
          return fallback
  \<close>
\<close>

definition listget :: "'a list \<Rightarrow> int \<Rightarrow> 'a \<Rightarrow> exc + 'a" where
  "listget li index fallback =
     (case getitem li index of
        Inr x \<Rightarrow> Inr x
      | Inl e \<Rightarrow> (if e = IndexError then Inr fallback else Inl e))"

text \<open>\<^verbatim>\<open>str.isspace\<close> on one code point below 256: tab, line feed, vertical tab, form
  feed, carriage return, the four separators 0x1C to 0x1F, space, next line (0x85) and
  no-break space (0xA0).\<close>

definition isspace :: "char \<Rightarrow> bool" where
  "isspace c \<longleftrightarrow> c \<in> set [CHR 0x09, CHR 0x0A, CHR 0x0B, CHR 0x0C, CHR 0x0D,
     CHR 0x1C, CHR 0x1D, CHR 0x1E, CHR 0x1F, CHR 0x20, CHR 0x85, CHR 0xA0]"

text \<open>\<^verbatim>\<open>str.strip()\<close>: whitespace removed at both ends.\<close>

definition strip :: "string \<Rightarrow> string" where
  "strip s = rev (dropWhile isspace (rev (dropWhile isspace s)))"

text \<open>\<^verbatim>\<open>str.lower()\<close>, code point by code point: the letters A to Z and the Latin-1
  capitals 0xC0 to 0xDE (without the multiplication sign 0xD7) move up by 32.\<close>

definition uppercase_chars :: "char list" where
  "uppercase_chars = ''ABCDEFGHIJKLMNOPQRSTUVWXYZ'' @
     [CHR 0xC0, CHR 0xC1, CHR 0xC2, CHR 0xC3, CHR 0xC4, CHR 0xC5, CHR 0xC6, CHR 0xC7,
      CHR 0xC8, CHR 0xC9, CHR 0xCA, CHR 0xCB, CHR 0xCC, CHR 0xCD, CHR 0xCE, CHR 0xCF,
      CHR 0xD0, CHR 0xD1, CHR 0xD2, CHR 0xD3, CHR 0xD4, CHR 0xD5, CHR 0xD6,
      CHR 0xD8, CHR 0xD9, CHR 0xDA, CHR 0xDB, CHR 0xDC, CHR 0xDD, CHR 0xDE]"

definition lowercase_chars :: "char list" where
  "lowercase_chars = ''abcdefghijklmnopqrstuvwxyz'' @
     [CHR 0xE0, CHR 0xE1, CHR 0xE2, CHR 0xE3, CHR 0xE4, CHR 0xE5, CHR 0xE6, CHR 0xE7,
      CHR 0xE8, CHR 0xE9, CHR 0xEA, CHR 0xEB, CHR 0xEC, CHR 0xED, CHR 0xEE, CHR 0xEF,
      CHR 0xF0, CHR 0xF1, CHR 0xF2, CHR 0xF3, CHR 0xF4, CHR 0xF5, CHR 0xF6,
      CHR 0xF8, CHR 0xF9, CHR 0xFA, CHR 0xFB, CHR 0xFC, CHR 0xFD, CHR 0xFE]"

definition lower_char :: "char \<Rightarrow> char" where
  "lower_char c = (case map_of (zip uppercase_chars lowercase_chars) c of Some d \<Rightarrow> d | None \<Rightarrow> c)"

definition lower :: "string \<Rightarrow> string" where
  "lower s = map lower_char s"

text \<open>
  \<^verbatim>\<open>text.split(sep)\<close> for a separator that is not empty (the source passes the two
  literals \<^verbatim>\<open>'\n\n'\<close> and \<^verbatim>\<open>'\n'\<close>): the text is cut at each occurrence of the
  separator, found from the left and not overlapping. The result always has a first
  field.
\<close>

function split_on :: "string \<Rightarrow> string \<Rightarrow> string list" where
  "split_on sep [] = [[]]"
| "split_on sep (c # cs) =
     (if sep \<noteq> [] \<and> prefix sep (c # cs)
      then [] # split_on sep (drop (length sep) (c # cs))
      else (case split_on sep cs of [] \<Rightarrow> [[c]] | l # ls \<Rightarrow> (c # l) # ls))"
  by pat_completeness auto
termination
  by (relation "measure (\<lambda>(sep, s). length s)") auto

text \<open>\<^verbatim>\<open>sep.join(parts)\<close>.\<close>

fun join :: "string \<Rightarrow> string list \<Rightarrow> string" where
  "join sep [] = []"
| "join sep [x] = x"
| "join sep (x # y # ys) = x @ sep @ join sep (y # ys)"

text \<open>
  \<^verbatim>\<open>
  def docstring_preview(text):
      return text.split('\n\n')[0]
  \<close>
  Index 0 always exists: \<open>split_on\<close> never returns the empty list.
\<close>

definition docstring_preview :: "string \<Rightarrow> string" where
  "docstring_preview text = hd (split_on ''\<newline>\<newline>'' text)"

text \<open>
  \<^verbatim>\<open>
  def indent(text, spaces=4):
      spaces = ' ' * spaces
      return '\n'.join(spaces + line if line.strip() != '' else line for line in text.split('\n'))
  \<close>
  \<^verbatim>\<open>' ' * spaces\<close> is the empty string when \<open>spaces\<close> is negative.
\<close>

definition indent :: "string \<Rightarrow> int \<Rightarrow> string" where
  "indent text spaces =
     (let spaces = replicate (nat spaces) (CHR '' '')
      in join ''\<newline>''
           (map (\<lambda>line. if strip line \<noteq> [] then spaces @ line else line)
                (split_on ''\<newline>'' text)))"

section \<open>The help texts and the command registry\<close>

text \<open>The template of the global help document (\<^verbatim>\<open>DOCSTRING\<close> before it is
  formatted) and the nine help texts of \<^verbatim>\<open>MODULE_DOCSTRINGS\<close>, character for character;
  each starts and ends with a line feed, as the triple-quoted literals of the source do.\<close>

definition DOCSTRING_template :: string where
  "DOCSTRING_template = ''
Timesearch
The subreddit archiver

The basics:
1. Collect a subreddit's submissions
    > timesearch.py get_submissions -r subredditname

2. Collect the comments for those submissions
    > timesearch.py get_comments -r subredditname

3. Stay up-to-date
    > timesearch.py livestream -r subredditname


Commands for collecting:
{get_submissions}
{get_comments}
{livestream}
{getstyles}
{getwiki}

Commands for processing:
{offline_reading}
{index}
{breakdown}
{mergedb}

TO SEE DETAILS ON EACH COMMAND, RUN
> timesearch.py <command>
''"

definition doc_breakdown :: string where
  "doc_breakdown = ''
breakdown:
    Give the comment / submission counts for users in a subreddit, or
    the subreddits that a user posts to.

    Automatically dumps into a <database>_breakdown.json file
    in the same directory as the database.

    > timesearch.py breakdown -r subredditname <flags>
    > timesearch.py breakdown -u username <flags>

    flags:
    -r \"test\" | --subreddit \"test\":
        The subreddit database to break down.

    -u \"test\" | --username \"test\":
        The username database to break down.

    --sort \"name\" | \"submissions\" | \"comments\" | \"total_posts\"
        Sort the output.
''"

definition doc_get_comments :: string where
  "doc_get_comments = ''
get_comments:
    Collect comments on a subreddit or comments made by a user.

    > timesearch.py get_comments -r subredditname <flags>
    > timesearch.py get_comments -u username <flags>

    flags:
    -s \"t3_xxxxxx\" | --specific \"t3_xxxxxx\":
        Given a submission ID, t3_xxxxxx, scan only that submission.

    -l \"update\" | --lower \"update\":
        If a number - the unix timestamp to start at.
        If \"update\" - continue from latest comment in db.
        Default: update

    -up 1467460221 | --upper 1467460221:
        If a number - the unix timestamp to stop at.
        If not provided - stop at current time.
        Default: current time

    --dont_supplement:
        If provided, trust the pushshift data and do not fetch live copies
        from reddit.

    -v | --verbose:
        If provided, print extra information to the screen.
''"

definition doc_getstyles :: string where
  "doc_getstyles = ''
getstyles:
    Collect the stylesheet, and css images.

    > timesearch.py getstyles -r subredditname
''"

definition doc_getwiki :: string where
  "doc_getwiki = ''
getwiki:
    Collect all available wiki pages.

    > timesearch.py getwiki -r subredditname
''"

definition doc_mergedb :: string where
  "doc_mergedb = ''
mergedb:
    Copy all new posts from one timesearch database into another.

    > timesearch mergedb --from redditdev1.db --to redditdev2.db

    flags:
    --from:
        The database file containing the posts you wish to copy.

    --to:
        The database file to which you will copy the posts.
        The database is modified in-place.
        Existing posts will be ignored and not updated.
''"

definition doc_livestream :: string where
  "doc_livestream = ''
livestream:
    Continously collect submissions and/or comments.

    > timesearch.py livestream -r subredditname <flags>
    > timesearch.py livestream -u username <flags>

    flags:
    -r \"test\" | --subreddit \"test\":
        The subreddit to collect from.

    -u \"test\" | --username \"test\":
        The redditor to collect from.

    -s | --submissions:
        If provided, do collect submissions. Otherwise don't.

    -c | --comments:
        If provided, do collect comments. Otherwise don't.

    If submissions and comments are BOTH left unspecified, then they will
    BOTH be collected.

    -v | --verbose:
        If provided, print extra information to the screen.

    -w 30 | --wait 30:
        The number of seconds to wait between cycles.

    -1 | --once:
        If provided, only do a single loop. Otherwise go forever.
''"

definition doc_offline_reading :: string where
  "doc_offline_reading = ''
offline_reading:
    Render submissions and comment threads to HTML via Markdown.

    > timesearch.py offline_reading -r subredditname <flags>
    > timesearch.py offline_reading -u username <flags>

    flags:
    -s \"t3_xxxxxx\" | --specific \"t3_xxxxxx\":
        Given a submission ID, t3_xxxxxx, render only that submission.
        Otherwise render every submission in the database.
''"

definition doc_index :: string where
  "doc_index = ''
index:
    Dump submission listings to a plaintext or HTML file.

    > timesearch.py index -r subredditname <flags>
    > timesearch.py index -u username <flags>

    flags:
    -r \"test\" | --subreddit \"test\":
        The subreddit database to dump

    -u \"test\" | --username \"test\":
        The username database to dump

    --html:
        Write HTML files instead of plain text.

    --offline:
        The links in the mash will point to the files generated by
        offline_reading. That is, `../offline_reading/fullname.html` instead
        of `http://redd.it/id`. This will NOT trigger offline_reading to
        generate the files now, so you must run that tool separately.

    -st 50 | --score_threshold 50:
        Only mash posts with at least this many points.
        Applies to ALL mashes!

    --all:
        Perform all of the mashes listed below.

    --date:
        Perform a mash sorted by date.

    --title:
        Perform a mash sorted by title.

    --score:
        Perform a mash sorted by score.

    --author:
        For subreddit databases only.
        Perform a mash sorted by author.

    --sub:
        For username databases only.
        Perform a mash sorted by subreddit.

    --flair:
        Perform a mash sorted by flair.

    examples:
        `timesearch index -r botwatch --date`
        does only the date file.

        `timesearch index -r botwatch --score --title`
        does both the score and title files.

        `timesearch index -r botwatch --score --score_threshold 50`
        only shows submissions with >= 50 points.

        `timesearch index -r botwatch --all`
        performs all of the different mashes.
''"

definition doc_get_submissions :: string where
  "doc_get_submissions = ''
get_submissions:
    Collect submissions from the subreddit across all of history, or
    Collect submissions by a user (as many as possible).

    > timesearch.py get_submissions -r subredditname <flags>
    > timesearch.py get_submissions -u username <flags>

    -r \"test\" | --subreddit \"test\":
        The subreddit to scan. Mutually exclusive with username.

    -u \"test\" | --username \"test\":
        The user to scan. Mutually exclusive with subreddit.

    -l \"update\" | --lower \"update\":
        If a number - the unix timestamp to start at.
        If \"update\" - continue from latest submission in db.
        Default: update

    -up 1467460221 | --upper 1467460221:
        If a number - the unix timestamp to stop at.
        If not provided - stop at current time.
        Default: current time

    --dont_supplement:
        If provided, trust the pushshift data and do not fetch live copies
        from reddit.

    -v | --verbose:
        If provided, print extra information to the screen.
''"

text \<open>\<^verbatim>\<open>MODULE_DOCSTRINGS\<close>, in the order of the source.\<close>

definition MODULE_DOCSTRINGS :: "(string \<times> string) list" where
  "MODULE_DOCSTRINGS =
     [(''breakdown'', doc_breakdown),
      (''get_comments'', doc_get_comments),
      (''getstyles'', doc_getstyles),
      (''getwiki'', doc_getwiki),
      (''mergedb'', doc_mergedb),
      (''livestream'', doc_livestream),
      (''offline_reading'', doc_offline_reading),
      (''index'', doc_index),
      (''get_submissions'', doc_get_submissions)]"

definition OLD_COMMAND_ALIASES :: "(string \<times> string) list" where
  "OLD_COMMAND_ALIASES =
     [(''timesearch'', ''get_submissions''),
      (''commentaugment'', ''get_comments''),
      (''redmash'', ''index'')]"

text \<open>\<^verbatim>\<open>d.get(key, default)\<close> on a dictionary.\<close>

definition dict_get :: "('k \<times> 'v) list \<Rightarrow> 'k \<Rightarrow> 'v \<Rightarrow> 'v" where
  "dict_get d key dflt = (case map_of d key of Some v \<Rightarrow> v | None \<Rightarrow> dflt)"

text \<open>\<^verbatim>\<open>d[key]\<close> on a dictionary with string keys: a missing key raises KeyError.\<close>

definition dict_getitem :: "(string \<times> 'v) list \<Rightarrow> string \<Rightarrow> exc + 'v" where
  "dict_getitem d key = (case map_of d key of Some v \<Rightarrow> Inr v | None \<Rightarrow> Inl (KeyError key))"

text \<open>
  \<^verbatim>\<open>
  docstring_headers = {
      key: indent(docstring_preview(value))
      for (key, value) in MODULE_DOCSTRINGS.items()
  }
  \<close>
\<close>

definition docstring_headers :: "(string \<times> string) list" where
  "docstring_headers = map (\<lambda>(key, value). (key, indent (docstring_preview value) 4)) MODULE_DOCSTRINGS"

text \<open>
  \<^verbatim>\<open>template.format(**kwargs)\<close>, read from the left. Outside a field (\<open>None\<close>) a doubled
  brace is one literal brace, a single \<^verbatim>\<open>{\<close> opens a field and a single \<^verbatim>\<open>}\<close> is a
  ValueError. Inside a field (\<open>Some name\<close>, the name read so far in reverse) the
  closing brace looks the name up among the keyword arguments: an empty name or a
  number is a positional field, of which the call passes none (IndexError); a missing
  name is a KeyError. Conversions, format specifications, attribute and index lookups
  (\<^verbatim>\<open>! : . [\<close>) and nested braces do not occur in the template of this program and are
  reported as \<open>OtherFailure\<close>.
\<close>

fun format_scan :: "(string \<times> string) list \<Rightarrow> string option \<Rightarrow> string \<Rightarrow> exc + string" where
  "format_scan kwargs None [] = Inr []"
| "format_scan kwargs (Some name) [] = Inl (ValueError ''expected } before end of string'')"
| "format_scan kwargs None [c] =
     (if c = CHR ''{'' then Inl (ValueError ''Single { encountered in format string'')
      else if c = CHR ''}'' then Inl (ValueError ''Single } encountered in format string'')
      else Inr [c])"
| "format_scan kwargs None (c # d # cs) =
     (if c = CHR ''{'' then
        (if d = CHR ''{'' then map_sum id ((#) c) (format_scan kwargs None cs)
         else format_scan kwargs (Some []) (d # cs))
      else if c = CHR ''}'' then
        (if d = CHR ''}'' then map_sum id ((#) c) (format_scan kwargs None cs)
         else Inl (ValueError ''Single } encountered in format string''))
      else map_sum id ((#) c) (format_scan kwargs None (d # cs)))"
| "format_scan kwargs (Some name) (c # cs) =
     (if c = CHR ''}'' then
        (if list_all (\<lambda>x. x \<in> set ''0123456789'') name then Inl IndexError
         else (case map_of kwargs (rev name) of
                 None \<Rightarrow> Inl (KeyError (rev name))
               | Some v \<Rightarrow> map_sum id ((@) v) (format_scan kwargs None cs)))
      else if c \<in> set ''!:.[{'' then Inl (OtherFailure ''format field syntax outside the model'')
      else format_scan kwargs (Some (c # name)) cs)"

text \<open>
  \<^verbatim>\<open>DOCSTRING = DOCSTRING.format(**docstring_headers)\<close>. The formatting succeeds
  (\<open>DOCSTRING_format\<close> below), so the module is defined and \<open>DOCSTRING\<close> is its result.
\<close>

definition DOCSTRING :: string where
  "DOCSTRING =
     (case format_scan docstring_headers None DOCSTRING_template of Inr s \<Rightarrow> s | Inl e \<Rightarrow> [])"

section \<open>Gateways and the argument parser\<close>

text \<open>
  The nine gateway functions, as the function references the parser stores in
  \<^verbatim>\<open>func\<close>. Each has the same shape:
  \<^verbatim>\<open>
  def breakdown_gateway(args):
      from . import breakdown
      breakdown.breakdown_argparse(args)
  \<close>
\<close>

datatype gateway =
    breakdown_gateway
  | get_comments_gateway
  | getstyles_gateway
  | getwiki_gateway
  | livestream_gateway
  | mergedb_gateway
  | offline_reading_gateway
  | index_gateway
  | get_submissions_gateway

text \<open>The module a gateway imports when it is called.\<close>

fun module_of :: "gateway \<Rightarrow> string" where
  "module_of breakdown_gateway = ''breakdown''"
| "module_of get_comments_gateway = ''get_comments''"
| "module_of getstyles_gateway = ''getstyles''"
| "module_of getwiki_gateway = ''getwiki''"
| "module_of livestream_gateway = ''livestream''"
| "module_of mergedb_gateway = ''mergedb''"
| "module_of offline_reading_gateway = ''offline_reading''"
| "module_of index_gateway = ''index''"
| "module_of get_submissions_gateway = ''get_submissions''"

text \<open>The \<^verbatim>\<open>argparse.Namespace\<close> that \<^verbatim>\<open>parse_args\<close> returns: the option values by
  \<^verbatim>\<open>dest\<close>, and \<^verbatim>\<open>func\<close> when a sub-parser has set it.\<close>

record namespace =
  func :: "gateway option"
  options :: "(string \<times> pyval) list"

text \<open>What the dispatcher does, in order: a \<^verbatim>\<open>print\<close> call, the import of a module by
  a gateway, and the call of that module's entry point.\<close>

datatype event = Print string | Import string | Call string namespace

text \<open>
  The names \<^verbatim>\<open>subparsers.add_parser\<close> registers, aliases included, in the order of the
  source, each with the gateway its sub-parser sets as \<^verbatim>\<open>func\<close>
  (\<^verbatim>\<open>p_breakdown.set_defaults(func=breakdown_gateway)\<close> and so on).
\<close>

definition subparser_names :: "(string \<times> gateway) list" where
  "subparser_names =
     [(''breakdown'', breakdown_gateway),
      (''get_comments'', get_comments_gateway),
      (''commentaugment'', get_comments_gateway),
      (''getstyles'', getstyles_gateway),
      (''getwiki'', getwiki_gateway),
      (''livestream'', livestream_gateway),
      (''mergedb'', mergedb_gateway),
      (''offline_reading'', offline_reading_gateway),
      (''index'', index_gateway),
      (''redmash'', index_gateway),
      (''get_submissions'', get_submissions_gateway),
      (''timesearch'', get_submissions_gateway)]"

text \<open>
  What lies outside the file: the \<^verbatim>\<open>argparse\<close> library and the collaborator modules.
  \<^item> \<open>parse_options g rest\<close>: the sub-parser whose \<^verbatim>\<open>func\<close> is \<open>g\<close>, run on the tokens
    after the command name. It raises (SystemExit, on a malformed or unrecognised
    option and on \<^verbatim>\<open>-h\<close>) or yields the option values.
  \<^item> \<open>parse_without_command argv\<close>: \<^verbatim>\<open>parser.parse_args\<close> on a vector that is empty or
    whose first token starts with \<^verbatim>\<open>-\<close>, where \<^verbatim>\<open>argparse\<close> reads an option of the
    top-level parser before any command name.
  \<^item> \<open>import_module m\<close>: \<^verbatim>\<open>from . import m\<close>; \<open>Some e\<close> when loading the module raises.
  \<^item> \<open>entry_point m args\<close>: \<^verbatim>\<open>m.m_argparse(args)\<close>, the value it returns or the
    exception it raises.
\<close>

record env =
  parse_options :: "gateway \<Rightarrow> string list \<Rightarrow> exc + (string \<times> pyval) list"
  parse_without_command :: "string list \<Rightarrow> exc + namespace"
  import_module :: "string \<Rightarrow> exc option"
  entry_point :: "string \<Rightarrow> namespace \<Rightarrow> exc + pyval"

text \<open>
  \<^verbatim>\<open>parser.parse_args(argv)\<close>. A first token that does not start with \<^verbatim>\<open>-\<close> is the
  positional argument of the sub-parser action, which takes every token after it as
  well. \<^verbatim>\<open>argparse\<close> checks the token against the registered names as they are
  spelled: a token that is none of them is an invalid choice, reported by
  \<^verbatim>\<open>parser.error\<close>, which raises \<^verbatim>\<open>SystemExit(2)\<close>. A registered name selects its
  sub-parser, which parses the remaining tokens and adds its \<^verbatim>\<open>func\<close>.
\<close>

definition parse_args :: "env \<Rightarrow> string list \<Rightarrow> exc + namespace" where
  "parse_args env argv =
     (case argv of
        [] \<Rightarrow> parse_without_command env argv
      | name # rest \<Rightarrow>
          (if name \<noteq> [] \<and> hd name = CHR ''-'' then parse_without_command env argv
           else (case map_of subparser_names name of
                   None \<Rightarrow> Inl (SystemExit 2)
                 | Some g \<Rightarrow>
                     (case parse_options env g rest of
                        Inl e \<Rightarrow> Inl e
                      | Inr opts \<Rightarrow> Inr \<lparr>func = Some g, options = opts\<rparr>))))"

text \<open>Calling a gateway: the import, then the entry point; the gateway has no
  \<^verbatim>\<open>return\<close> statement, so it returns \<^verbatim>\<open>None\<close> whatever the entry point returned.\<close>

definition call_gateway :: "env \<Rightarrow> gateway \<Rightarrow> namespace \<Rightarrow> event list \<times> (exc + pyval)" where
  "call_gateway env g args =
     (case import_module env (module_of g) of
        Some e \<Rightarrow> ([Import (module_of g)], Inl e)
      | None \<Rightarrow>
          (case entry_point env (module_of g) args of
             Inl e \<Rightarrow> ([Import (module_of g), Call (module_of g) args], Inl e)
           | Inr v \<Rightarrow> ([Import (module_of g), Call (module_of g) args], Inr PyNone)))"

text \<open>\<^verbatim>\<open>args.func(args)\<close>: an AttributeError when the namespace has no \<^verbatim>\<open>func\<close>.\<close>

definition call_func :: "env \<Rightarrow> namespace \<Rightarrow> event list \<times> (exc + pyval)" where
  "call_func env args =
     (case func args of
        None \<Rightarrow> ([], Inl (AttributeError ''func''))
      | Some g \<Rightarrow> call_gateway env g args)"

section \<open>The dispatcher\<close>

definition helpstrings :: "string list" where
  "helpstrings = ['''', ''help'', ''-h'', ''--help'']"

definition no_command_note :: string where
  "no_command_note = ''You are seeing the default help text because you did not choose a command.''"

text \<open>\<^verbatim>\<open>'You are seeing the default help text because "%s" was not recognized' % command\<close>\<close>

definition unrecognized_note :: "string \<Rightarrow> string" where
  "unrecognized_note command =
     ''You are seeing the default help text because \"'' @ command @ ''\" was not recognized''"

definition collect_hint :: string where
  "collect_hint = ''\<newline>Have you used any of the other utilities to collect data?''"

text \<open>
  \<^verbatim>\<open>main(argv)\<close>: the trace of what it did, and the exit code it returns (\<open>Inr\<close>) or the
  exception that leaves it (\<open>Inl\<close>).
  \<^verbatim>\<open>
  def main(argv):
      helpstrings = {'', 'help', '-h', '--help'}

      command = listget(argv, 0, '').lower()
      command = OLD_COMMAND_ALIASES.get(command, command)

      if command not in MODULE_DOCSTRINGS:
          print(DOCSTRING)
          if command == '':
              print('You are seeing the default help text because you did not choose a command.')
          elif command not in helpstrings:
              print('You are seeing the default help text because "%s" was not recognized' % command)
          return 1

      argument = listget(argv, 1, '').lower()
      if argument in helpstrings:
          print(MODULE_DOCSTRINGS[command])
          return 1

      args = parser.parse_args(argv)
      try:
          args.func(args)
      except exceptions.DatabaseNotFound as e:
          message = str(e)
          message += '\nHave you used any of the other utilities to collect data?'
          print(message)
          return 1

      return 0
  \<close>
\<close>

definition main :: "env \<Rightarrow> string list \<Rightarrow> event list \<times> (exc + int)" where
  "main env argv =
     (case listget argv 0 [] of
        Inl e \<Rightarrow> ([], Inl e)
      | Inr token0 \<Rightarrow>
          (let command = lower token0;
               command = dict_get OLD_COMMAND_ALIASES command command
           in if command \<notin> set (map fst MODULE_DOCSTRINGS) then
                (Print DOCSTRING #
                   (if command = [] then [Print no_command_note]
                    else if command \<notin> set helpstrings then [Print (unrecognized_note command)]
                    else []),
                 Inr 1)
              else
                (case listget argv 1 [] of
                   Inl e \<Rightarrow> ([], Inl e)
                 | Inr token1 \<Rightarrow>
                     (let argument = lower token1
                      in if argument \<in> set helpstrings then
                           (case dict_getitem MODULE_DOCSTRINGS command of
                              Inl e \<Rightarrow> ([], Inl e)
                            | Inr text \<Rightarrow> ([Print text], Inr 1))
                         else
                           (case parse_args env argv of
                              Inl e \<Rightarrow> ([], Inl e)
                            | Inr args \<Rightarrow>
                                (case call_func env args of
                                   (trace, Inl (DatabaseNotFound message)) \<Rightarrow>
                                     (trace @ [Print (message @ collect_hint)], Inr 1)
                                 | (trace, Inl e) \<Rightarrow> (trace, Inl e)
                                 | (trace, Inr v) \<Rightarrow> (trace, Inr 0)))))))"

text \<open>The imports the module itself executes when it is loaded (lines 1 to 4 of the
  source); every other import of the file stands inside a gateway.\<close>

definition module_level_imports :: "string list" where
  "module_level_imports = [''argparse'', ''sys'', ''exceptions'']"

definition gateways :: "gateway list" where
  "gateways = [breakdown_gateway, get_comments_gateway, getstyles_gateway, getwiki_gateway,
     livestream_gateway, mergedb_gateway, offline_reading_gateway, index_gateway,
     get_submissions_gateway]"

text \<open>An event of a handler: the import of a collaborator module or the call of its
  entry point.\<close>

fun handler_event :: "event \<Rightarrow> bool" where
  "handler_event (Print s) = False"
| "handler_event (Import m) = True"
| "handler_event (Call m args) = True"

section \<open>Concrete environments\<close>

text \<open>An environment for examples: every sub-parser accepts its tokens and yields the
  option values \<open>opts\<close>, every module loads, and every entry point ends as \<open>r\<close> says.\<close>

definition example_env :: "(string \<times> pyval) list \<Rightarrow> exc + pyval \<Rightarrow> env" where
  "example_env opts r =
     \<lparr>parse_options = (\<lambda>g rest. Inr opts),
      parse_without_command = (\<lambda>argv. Inl (SystemExit 2)),
      import_module = (\<lambda>m. None),
      entry_point = (\<lambda>m args. r)\<rparr>"

section \<open>Properties of the text utilities\<close>

lemma split_on_not_Nil [simp]: "split_on sep s \<noteq> []"
  by (induction sep s rule: split_on.induct) (auto split: list.splits)

lemma join_Cons_first: "join sep ((c # l) # ls) = c # join sep (l # ls)"
  by (cases ls) simp_all

lemma join_Nil_first: "ls \<noteq> [] \<Longrightarrow> join sep ([] # ls) = sep @ join sep ls"
  by (cases ls) simp_all

lemma join_split_on: "join sep (split_on sep s) = s"
proof (induction sep s rule: split_on.induct)
  case (1 sep)
  show ?case by simp
next
  case (2 sep c cs)
  show ?case
  proof (cases "sep \<noteq> [] \<and> prefix sep (c # cs)")
    case True
    then obtain rest where rest: "c # cs = sep @ rest"
      by (auto simp: prefix_def)
    then have "drop (length sep) (c # cs) = rest"
      by simp
    with True have "split_on sep (c # cs) = [] # split_on sep rest"
      by simp
    moreover have "join sep (split_on sep rest) = rest"
      using 2(1) True \<open>drop (length sep) (c # cs) = rest\<close> by simp
    ultimately show ?thesis
      by (simp add: join_Nil_first rest)
  next
    case False
    obtain l ls where l: "split_on sep cs = l # ls"
      by (cases "split_on sep cs") simp_all
    with 2(2) False show ?thesis
      by (auto simp: join_Cons_first)
  qed
qed

lemma split_on_line:
  "c \<notin> set l \<Longrightarrow> split_on [c] (l @ c # rest) = l # split_on [c] rest"
  by (induction l) auto

lemma split_on_single_line: "c \<notin> set l \<Longrightarrow> split_on [c] l = [l]"
  by (induction l) auto

lemma split_on_join:
  "ls \<noteq> [] \<Longrightarrow> \<forall>l\<in>set ls. c \<notin> set l \<Longrightarrow> split_on [c] (join [c] ls) = ls"
proof (induction "[c]" ls rule: join.induct)
  case 1
  then show ?case by simp
next
  case (2 x)
  then show ?case by (simp add: split_on_single_line)
next
  case (3 x y ys)
  then show ?case by (simp add: split_on_line)
qed

lemma split_on_fields_free: "l \<in> set (split_on [c] s) \<Longrightarrow> c \<notin> set l"
proof (induction s arbitrary: l)
  case Nil
  then show ?case by simp
next
  case (Cons x xs)
  obtain f fs where f: "split_on [c] xs = f # fs"
    by (cases "split_on [c] xs") simp_all
  with Cons show ?case
    by (cases "x = c") (auto split: if_splits)
qed

lemma strip_empty_iff: "strip s = [] \<longleftrightarrow> (\<forall>c\<in>set s. isspace c)"
proof
  assume "strip s = []"
  then have "\<forall>x\<in>set (dropWhile isspace s). isspace x"
    by (simp add: strip_def)
  then have "dropWhile isspace s = []"
    by (metis hd_dropWhile hd_in_set)
  then show "\<forall>c\<in>set s. isspace c"
    by simp
next
  assume "\<forall>c\<in>set s. isspace c"
  then have "dropWhile isspace s = []"
    by simp
  then show "strip s = []"
    unfolding strip_def by (simp only: rev.simps dropWhile.simps)
qed

lemma set_join: "l \<in> set ls \<Longrightarrow> set l \<subseteq> set (join sep ls)"
  by (induction sep ls rule: join.induct) auto

lemma split_on_fields_subset: "l \<in> set (split_on sep s) \<Longrightarrow> set l \<subseteq> set s"
  using set_join [of l "split_on sep s" sep] by (simp add: join_split_on)

section \<open>The claims about the text utilities\<close>

text \<open>
  Claim C8. For every list, every index and every fallback value, \<open>listget\<close> returns a
  value and never raises: the element at the index when the index is in range (a
  negative index counts from the end, as Python's indexing does), and the fallback when
  the index is out of range.
\<close>

theorem listget_total:
  "(\<exists>v. listget li index fallback = Inr v) \<and>
   (0 \<le> index \<and> index < int (length li) \<longrightarrow> listget li index fallback = Inr (li ! nat index)) \<and>
   (- int (length li) \<le> index \<and> index < 0 \<longrightarrow>
      listget li index fallback = Inr (li ! nat (int (length li) + index))) \<and>
   (index < - int (length li) \<or> int (length li) \<le> index \<longrightarrow>
      listget li index fallback = Inr fallback)"
  by (auto simp: listget_def getitem_def)

theorem listget_total_witness:
  "listget [''a'', ''b''] 5 ''fallback'' = Inr ''fallback'' \<and>
   listget [''a'', ''b''] 1 ''fallback'' = Inr ''b'' \<and>
   listget [''a'', ''b''] 0 ''fallback'' = Inr ''a'' \<and>
   listget [''a'', ''b''] (- 1) ''fallback'' = Inr ''b'' \<and>
   listget [''a'', ''b''] (- 3) ''fallback'' = Inr ''fallback'' \<and>
   listget [] 0 ''fallback'' = Inr ''fallback''"
  using listget_total [of "[''a'', ''b'']" 5 "''fallback''"]
    listget_total [of "[''a'', ''b'']" 1 "''fallback''"]
    listget_total [of "[''a'', ''b'']" 0 "''fallback''"]
    listget_total [of "[''a'', ''b'']" "- 1" "''fallback''"]
    listget_total [of "[''a'', ''b'']" "- 3" "''fallback''"]
    listget_total [of "[]" 0 "''fallback''"]
  by simp

text \<open>
  Claim C9. For every text and width, the lines of \<open>indent text width\<close> are the lines of
  \<open>text\<close>, in order: a line that is empty after trimming whitespace is unchanged, every
  other line is prefixed by the requested spaces and nothing else (exactly \<open>width\<close> of
  them for a width that is not negative). The lines of a text are its fields between
  line feeds, and joining them gives the text back. A text that is blank after trimming
  is returned as it is. (For a negative width \<^verbatim>\<open>' ' * width\<close> is empty in Python, and
  the prefix is empty.)
\<close>

theorem indent_lines:
  "join ''\<newline>'' (split_on ''\<newline>'' text) = text \<and>
   split_on ''\<newline>'' (indent text width) =
     map (\<lambda>line. if strip line = [] then line else replicate (nat width) (CHR '' '') @ line)
         (split_on ''\<newline>'' text) \<and>
   (0 \<le> width \<longrightarrow> int (length (replicate (nat width) (CHR '' ''))) = width) \<and>
   (strip text = [] \<longrightarrow> indent text width = text)"
proof -
  let ?nl = "''\<newline>''"
  let ?sp = "replicate (nat width) (CHR '' '')"
  let ?f = "\<lambda>line. if strip line \<noteq> [] then ?sp @ line else line"
  let ?g = "\<lambda>line. if strip line = [] then line else ?sp @ line"
  have fg: "?f = ?g"
    by (auto simp: fun_eq_iff)
  have ind: "indent text width = join ?nl (map ?f (split_on ?nl text))"
    by (simp add: indent_def Let_def)
  have free: "\<forall>l\<in>set (map ?f (split_on ?nl text)). CHR ''\<newline>'' \<notin> set l"
    by (auto dest: split_on_fields_free)
  have "split_on ?nl (join ?nl (map ?f (split_on ?nl text))) = map ?f (split_on ?nl text)"
    by (rule split_on_join) (use free in simp_all)
  then have lines: "split_on ?nl (indent text width) = map ?g (split_on ?nl text)"
    by (simp add: ind fg)
  have blank: "indent text width = text" if "strip text = []"
  proof -
    have "\<forall>l\<in>set (split_on ?nl text). strip l = []"
    proof
      fix l assume "l \<in> set (split_on ?nl text)"
      then have "set l \<subseteq> set text"
        by (rule split_on_fields_subset)
      with that show "strip l = []"
        by (auto simp: strip_empty_iff)
    qed
    then have "map ?g (split_on ?nl text) = split_on ?nl text"
      by (simp add: map_idI)
    then show ?thesis
      by (simp add: ind fg join_split_on)
  qed
  show ?thesis
    using lines blank by (simp add: join_split_on)
qed

theorem indent_lines_witness:
  "split_on ''\<newline>'' (indent ''one\<newline>\<newline>  \<newline> two'' 2) = [''  one'', [], ''  '', ''   two''] \<and>
   indent ''one\<newline>\<newline>  \<newline> two'' 2 = ''  one\<newline>\<newline>  \<newline>   two'' \<and>
   (0::int) \<le> 2 \<and> int (length (replicate (nat 2) (CHR '' ''))) = 2 \<and>
   strip '' \<newline>  '' = [] \<and> indent '' \<newline>  '' 2 = '' \<newline>  '' \<and>
   indent [] 2 = []"
  using indent_lines [of "''one\<newline>\<newline>  \<newline> two''" 2] indent_lines [of "'' \<newline>  ''" 2]
    indent_lines [of "[]" 2]
  by (simp add: strip_def isspace_def indent_def Let_def eval_nat_numeral)

section \<open>Alias resolution\<close>

text \<open>
  Claim C5. Alias resolution, \<^verbatim>\<open>OLD_COMMAND_ALIASES.get(command, command)\<close>, is a total
  function with a plain string as its result: \<^verbatim>\<open>timesearch\<close> resolves to
  \<^verbatim>\<open>get_submissions\<close>, \<^verbatim>\<open>commentaugment\<close> to \<^verbatim>\<open>get_comments\<close>, \<^verbatim>\<open>redmash\<close> to
  \<^verbatim>\<open>index\<close>, and every other token to itself.
\<close>

theorem alias_resolution:
  "dict_get OLD_COMMAND_ALIASES ''timesearch'' ''timesearch'' = ''get_submissions'' \<and>
   dict_get OLD_COMMAND_ALIASES ''commentaugment'' ''commentaugment'' = ''get_comments'' \<and>
   dict_get OLD_COMMAND_ALIASES ''redmash'' ''redmash'' = ''index'' \<and>
   (command \<notin> {''timesearch'', ''commentaugment'', ''redmash''} \<longrightarrow>
      dict_get OLD_COMMAND_ALIASES command command = command)"
  by (simp add: dict_get_def OLD_COMMAND_ALIASES_def)

theorem alias_resolution_witness:
  "''bogus'' \<notin> {''timesearch'', ''commentaugment'', ''redmash''} \<and>
   dict_get OLD_COMMAND_ALIASES ''bogus'' ''bogus'' = ''bogus'' \<and>
   dict_get OLD_COMMAND_ALIASES ''get_comments'' ''get_comments'' = ''get_comments'' \<and>
   dict_get OLD_COMMAND_ALIASES [] [] = []"
  using alias_resolution [of "''bogus''"] alias_resolution [of "''get_comments''"]
    alias_resolution [of "[]"]
  by simp

section \<open>The registry and the global help document\<close>

lemma hd_split_on_prefix: "prefix (hd (split_on sep s)) s"
proof (induction sep s rule: split_on.induct)
  case (1 sep)
  show ?case by simp
next
  case (2 sep c cs)
  obtain l ls where "split_on sep cs = l # ls"
    by (cases "split_on sep cs") simp_all
  with 2(2) show ?case
    by auto
qed

lemma hd_split_on_length:
  "sep \<noteq> [] \<Longrightarrow> prefix sep (drop n s) \<Longrightarrow> length (hd (split_on sep s)) \<le> n"
proof (induction s arbitrary: n)
  case Nil
  then show ?case by simp
next
  case (Cons c cs)
  show ?case
  proof (cases "prefix sep (c # cs)")
    case True
    with Cons.prems show ?thesis by simp
  next
    case False
    with Cons.prems obtain m where n: "n = Suc m"
      by (cases n) auto
    obtain l ls where l: "split_on sep cs = l # ls"
      by (cases "split_on sep cs") simp_all
    from Cons.prems n have "length (hd (split_on sep cs)) \<le> m"
      by (intro Cons.IH) simp_all
    with False l n show ?thesis
      by simp
  qed
qed

lemma docstring_preview_prefix: "prefix (docstring_preview text) text"
  by (simp add: docstring_preview_def hd_split_on_prefix)

lemma docstring_preview_strict:
  assumes "prefix ''\<newline>\<newline>'' (drop n text)"
  shows "strict_prefix (docstring_preview text) text"
proof -
  have "length (docstring_preview text) \<le> n"
    unfolding docstring_preview_def by (rule hd_split_on_length) (use assms in simp_all)
  moreover from assms have "n < length text"
    by (cases "n < length text") simp_all
  ultimately have "docstring_preview text \<noteq> text"
    by auto
  with docstring_preview_prefix show ?thesis
    by (simp add: strict_prefix_def)
qed

text \<open>The first blank line of each help text: the offset of its two line feeds.\<close>

lemma preview_breakdown: "strict_prefix (docstring_preview doc_breakdown) doc_breakdown"
  by (rule docstring_preview_strict [of 122]) (simp add: doc_breakdown_def)

lemma preview_get_comments: "strict_prefix (docstring_preview doc_get_comments) doc_get_comments"
  by (rule docstring_preview_strict [of 78]) (simp add: doc_get_comments_def)

lemma preview_getstyles: "strict_prefix (docstring_preview doc_getstyles) doc_getstyles"
  by (rule docstring_preview_strict [of 55]) (simp add: doc_getstyles_def)

lemma preview_getwiki: "strict_prefix (docstring_preview doc_getwiki) doc_getwiki"
  by (rule docstring_preview_strict [of 47]) (simp add: doc_getwiki_def)

lemma preview_mergedb: "strict_prefix (docstring_preview doc_mergedb) doc_mergedb"
  by (rule docstring_preview_strict [of 75]) (simp add: doc_mergedb_def)

lemma preview_livestream: "strict_prefix (docstring_preview doc_livestream) doc_livestream"
  by (rule docstring_preview_strict [of 65]) (simp add: doc_livestream_def)

lemma preview_offline_reading:
  "strict_prefix (docstring_preview doc_offline_reading) doc_offline_reading"
  by (rule docstring_preview_strict [of 82]) (simp add: doc_offline_reading_def)

lemma preview_index: "strict_prefix (docstring_preview doc_index) doc_index"
  by (rule docstring_preview_strict [of 65]) (simp add: doc_index_def)

lemma preview_get_submissions:
  "strict_prefix (docstring_preview doc_get_submissions) doc_get_submissions"
  by (rule docstring_preview_strict [of 143]) (simp add: doc_get_submissions_def)

lemma MODULE_DOCSTRINGS_keys:
  "map fst MODULE_DOCSTRINGS =
     [''breakdown'', ''get_comments'', ''getstyles'', ''getwiki'', ''mergedb'', ''livestream'',
      ''offline_reading'', ''index'', ''get_submissions'']"
  by (simp add: MODULE_DOCSTRINGS_def)

text \<open>The keys of each dictionary are distinct, so the association lists stand for the
  dictionaries of the source.\<close>

lemma dictionaries_distinct:
  "distinct (map fst MODULE_DOCSTRINGS)"
  "distinct (map fst OLD_COMMAND_ALIASES)"
  "distinct (map fst subparser_names)"
  by (simp_all add: MODULE_DOCSTRINGS_keys OLD_COMMAND_ALIASES_def subparser_names_def)

text \<open>
  Claim C6. Every canonical name the alias table resolves to is a key of the command
  registry, and for every entry of the registry the short description, the first
  paragraph that \<open>docstring_preview\<close> cuts at the first blank line, is a strict prefix of
  the entry's full help text. The registry and the alias table are constants of the
  module: no statement of the source assigns to them or changes them after they are
  built, so they are constants of the model and \<open>main\<close> only reads them.
\<close>

theorem registry_invariants:
  "(\<forall>(alias, name) \<in> set OLD_COMMAND_ALIASES. name \<in> set (map fst MODULE_DOCSTRINGS)) \<and>
   (\<forall>(name, full_help) \<in> set MODULE_DOCSTRINGS.
      strict_prefix (docstring_preview full_help) full_help)"
proof
  show "\<forall>(alias, name) \<in> set OLD_COMMAND_ALIASES. name \<in> set (map fst MODULE_DOCSTRINGS)"
    by (simp add: OLD_COMMAND_ALIASES_def MODULE_DOCSTRINGS_keys)
  show "\<forall>(name, full_help) \<in> set MODULE_DOCSTRINGS.
      strict_prefix (docstring_preview full_help) full_help"
    by (simp add: MODULE_DOCSTRINGS_def preview_breakdown preview_get_comments
        preview_getstyles preview_getwiki preview_mergedb preview_livestream
        preview_offline_reading preview_index preview_get_submissions)
qed

theorem registry_invariants_witness:
  "(''redmash'', ''index'') \<in> set OLD_COMMAND_ALIASES \<and>
   ''index'' \<in> set (map fst MODULE_DOCSTRINGS) \<and>
   (''index'', doc_index) \<in> set MODULE_DOCSTRINGS \<and>
   strict_prefix (docstring_preview doc_index) doc_index"
proof -
  have a: "(''redmash'', ''index'') \<in> set OLD_COMMAND_ALIASES"
    by (simp add: OLD_COMMAND_ALIASES_def)
  have d: "(''index'', doc_index) \<in> set MODULE_DOCSTRINGS"
    by (simp add: MODULE_DOCSTRINGS_def)
  from registry_invariants a d show ?thesis
    by blast
qed

lemma docstring_headers_lookup:
  "map_of docstring_headers ''breakdown'' = Some (indent (docstring_preview doc_breakdown) 4)"
  "map_of docstring_headers ''get_comments'' = Some (indent (docstring_preview doc_get_comments) 4)"
  "map_of docstring_headers ''getstyles'' = Some (indent (docstring_preview doc_getstyles) 4)"
  "map_of docstring_headers ''getwiki'' = Some (indent (docstring_preview doc_getwiki) 4)"
  "map_of docstring_headers ''mergedb'' = Some (indent (docstring_preview doc_mergedb) 4)"
  "map_of docstring_headers ''livestream'' = Some (indent (docstring_preview doc_livestream) 4)"
  "map_of docstring_headers ''offline_reading'' =
     Some (indent (docstring_preview doc_offline_reading) 4)"
  "map_of docstring_headers ''index'' = Some (indent (docstring_preview doc_index) 4)"
  "map_of docstring_headers ''get_submissions'' =
     Some (indent (docstring_preview doc_get_submissions) 4)"
  by (simp_all add: docstring_headers_def MODULE_DOCSTRINGS_def)

text \<open>The global help document: the template with each field replaced by the indented
  first paragraph of the command's help text. The formatting raises nothing.\<close>

lemma DOCSTRING_assembled:
  "format_scan docstring_headers None DOCSTRING_template = Inr (''
Timesearch
The subreddit archiver

The basics:
1. Collect a subreddit's submissions
    > timesearch.py get_submissions -r subredditname

2. Collect the comments for those submissions
    > timesearch.py get_comments -r subredditname

3. Stay up-to-date
    > timesearch.py livestream -r subredditname


Commands for collecting:
'' @ indent (docstring_preview doc_get_submissions) 4 @ ''
'' @ indent (docstring_preview doc_get_comments) 4 @ ''
'' @ indent (docstring_preview doc_livestream) 4 @ ''
'' @ indent (docstring_preview doc_getstyles) 4 @ ''
'' @ indent (docstring_preview doc_getwiki) 4 @ ''

Commands for processing:
'' @ indent (docstring_preview doc_offline_reading) 4 @ ''
'' @ indent (docstring_preview doc_index) 4 @ ''
'' @ indent (docstring_preview doc_breakdown) 4 @ ''
'' @ indent (docstring_preview doc_mergedb) 4 @ ''

TO SEE DETAILS ON EACH COMMAND, RUN
> timesearch.py <command>
'')"
  by (simp add: DOCSTRING_template_def docstring_headers_lookup)

lemma DOCSTRING_format: "format_scan docstring_headers None DOCSTRING_template = Inr DOCSTRING"
  unfolding DOCSTRING_def by (simp only: DOCSTRING_assembled sum.case)

lemma DOCSTRING_start: "take 2 DOCSTRING = ''\<newline>T''"
  unfolding DOCSTRING_def by (simp only: DOCSTRING_assembled sum.case) simp

lemma doc_starts:
  "take 2 doc_breakdown = ''\<newline>b''"
  "take 2 doc_get_comments = ''\<newline>g''"
  "take 2 doc_getstyles = ''\<newline>g''"
  "take 2 doc_getwiki = ''\<newline>g''"
  "take 2 doc_mergedb = ''\<newline>m''"
  "take 2 doc_livestream = ''\<newline>l''"
  "take 2 doc_offline_reading = ''\<newline>o''"
  "take 2 doc_index = ''\<newline>i''"
  "take 2 doc_get_submissions = ''\<newline>g''"
  by (simp_all add: doc_breakdown_def doc_get_comments_def doc_getstyles_def doc_getwiki_def
      doc_mergedb_def doc_livestream_def doc_offline_reading_def doc_index_def
      doc_get_submissions_def)

lemma help_text_not_DOCSTRING:
  assumes "map_of MODULE_DOCSTRINGS command = Some text"
  shows "text \<noteq> DOCSTRING"
proof
  assume "text = DOCSTRING"
  then have "take 2 text = ''\<newline>T''"
    by (simp add: DOCSTRING_start)
  moreover from assms have "text \<in> {doc_breakdown, doc_get_comments, doc_getstyles, doc_getwiki,
      doc_mergedb, doc_livestream, doc_offline_reading, doc_index, doc_get_submissions}"
    by (auto simp: MODULE_DOCSTRINGS_def split: if_splits)
  ultimately show False
    by (auto simp: doc_starts)
qed

section \<open>The dispatcher, branch by branch\<close>

lemma listget_returns: "\<exists>v. listget li index fallback = Inr v"
  by (auto simp: listget_def getitem_def)

lemma listget_first:
  "listget argv 0 [] = Inr token0 \<Longrightarrow> token0 \<noteq> [] \<Longrightarrow> \<exists>rest. argv = token0 # rest"
  by (cases argv) (auto simp: listget_def getitem_def)

lemma main_global_help:
  assumes "listget argv 0 [] = Inr token0"
    and "command = dict_get OLD_COMMAND_ALIASES (lower token0) (lower token0)"
    and "command \<notin> set (map fst MODULE_DOCSTRINGS)"
  shows "main env argv =
           (Print DOCSTRING #
              (if command = [] then [Print no_command_note]
               else if command \<in> set helpstrings then []
               else [Print (unrecognized_note command)]),
            Inr 1)"
  using assms by (simp add: main_def Let_def)

lemma main_command_help:
  assumes "listget argv 0 [] = Inr token0"
    and "command = dict_get OLD_COMMAND_ALIASES (lower token0) (lower token0)"
    and "command \<in> set (map fst MODULE_DOCSTRINGS)"
    and "listget argv 1 [] = Inr token1"
    and "lower token1 \<in> set helpstrings"
  shows "\<exists>text. map_of MODULE_DOCSTRINGS command = Some text \<and>
           main env argv = ([Print text], Inr 1)"
proof -
  from assms(3) obtain full_help where "map_of MODULE_DOCSTRINGS command = Some full_help"
    by (metis domD dom_map_of_conv_image_fst list.set_map)
  with assms show ?thesis
    by (simp add: main_def Let_def dict_getitem_def)
qed

lemma main_parse_raises:
  assumes "listget argv 0 [] = Inr token0"
    and "dict_get OLD_COMMAND_ALIASES (lower token0) (lower token0) \<in> set (map fst MODULE_DOCSTRINGS)"
    and "listget argv 1 [] = Inr token1"
    and "lower token1 \<notin> set helpstrings"
    and "parse_args env argv = Inl e"
  shows "main env argv = ([], Inl e)"
  using assms by (simp add: main_def Let_def)

lemma main_handler_returns:
  assumes "listget argv 0 [] = Inr token0"
    and "dict_get OLD_COMMAND_ALIASES (lower token0) (lower token0) \<in> set (map fst MODULE_DOCSTRINGS)"
    and "listget argv 1 [] = Inr token1"
    and "lower token1 \<notin> set helpstrings"
    and "parse_args env argv = Inr args"
    and "call_func env args = (trace, Inr v)"
  shows "main env argv = (trace, Inr 0)"
  using assms by (simp add: main_def Let_def)

lemma main_handler_raises:
  assumes "listget argv 0 [] = Inr token0"
    and "dict_get OLD_COMMAND_ALIASES (lower token0) (lower token0) \<in> set (map fst MODULE_DOCSTRINGS)"
    and "listget argv 1 [] = Inr token1"
    and "lower token1 \<notin> set helpstrings"
    and "parse_args env argv = Inr args"
    and "call_func env args = (trace, Inl e)"
  shows "main env argv =
           (case e of
              DatabaseNotFound message \<Rightarrow> (trace @ [Print (message @ collect_hint)], Inr 1)
            | _ \<Rightarrow> (trace, Inl e))"
  using assms by (simp add: main_def Let_def split: exc.splits)



lemma call_func_trace:
  assumes "call_func env args = (trace, r)"
  shows "trace = [] \<and> func args = None \<or>
         (\<exists>g. func args = Some g \<and>
            (trace = [Import (module_of g)] \<or>
             trace = [Import (module_of g), Call (module_of g) args]))"
  using assms
  by (auto simp: call_func_def call_gateway_def split: option.splits sum.splits)

lemma lower_char_dash: "lower_char (CHR ''-'') = CHR ''-''"
  by (simp add: lower_char_def uppercase_chars_def lowercase_chars_def)

lemma registered_lower:
  "dict_get OLD_COMMAND_ALIASES (lower t) (lower t) \<in> set (map fst MODULE_DOCSTRINGS) \<Longrightarrow>
   lower t \<in> set (map fst subparser_names)"
  by (auto simp: dict_get_def OLD_COMMAND_ALIASES_def MODULE_DOCSTRINGS_keys subparser_names_def
      split: if_splits)

lemma registered_not_option:
  assumes "dict_get OLD_COMMAND_ALIASES (lower t) (lower t) \<in> set (map fst MODULE_DOCSTRINGS)"
  shows "t \<noteq> [] \<and> hd t \<noteq> CHR ''-''"
proof (cases t)
  case Nil
  with registered_lower [OF assms] show ?thesis
    by (simp add: lower_def subparser_names_def)
next
  case (Cons c cs)
  have "c \<noteq> CHR ''-''"
  proof
    assume "c = CHR ''-''"
    with Cons have "hd (lower t) = CHR ''-''"
      by (simp add: lower_def lower_char_dash)
    with registered_lower [OF assms] show False
      by (auto simp: subparser_names_def)
  qed
  with Cons show ?thesis by simp
qed

lemma parse_args_command:
  assumes "t \<noteq> []" and "hd t \<noteq> CHR ''-''"
  shows "parse_args env (t # rest) =
           (case map_of subparser_names t of
              None \<Rightarrow> Inl (SystemExit 2)
            | Some g \<Rightarrow>
                (case parse_options env g rest of
                   Inl e \<Rightarrow> Inl e
                 | Inr opts \<Rightarrow> Inr \<lparr>func = Some g, options = opts\<rparr>))"
  using assms by (simp add: parse_args_def)

lemma lower_names:
  "lower ''breakdown'' = ''breakdown''"
  "lower ''get_comments'' = ''get_comments''"
  "lower ''commentaugment'' = ''commentaugment''"
  "lower ''getstyles'' = ''getstyles''"
  "lower ''getwiki'' = ''getwiki''"
  "lower ''livestream'' = ''livestream''"
  "lower ''mergedb'' = ''mergedb''"
  "lower ''offline_reading'' = ''offline_reading''"
  "lower ''index'' = ''index''"
  "lower ''redmash'' = ''redmash''"
  "lower ''get_submissions'' = ''get_submissions''"
  "lower ''timesearch'' = ''timesearch''"
  by (simp_all add: lower_def lower_char_def uppercase_chars_def lowercase_chars_def)

lemma subparser_module:
  "map_of subparser_names t = Some g \<Longrightarrow>
   module_of g = dict_get OLD_COMMAND_ALIASES (lower t) (lower t)"
  by (auto simp: subparser_names_def dict_get_def OLD_COMMAND_ALIASES_def lower_names
      split: if_splits)

lemma gateways_all: "g \<in> set gateways"
  by (cases g) (simp_all add: gateways_def)

section \<open>The claims about the dispatcher\<close>

lemma prints_only: "\<not> list_ex handler_event (Print a # (if c then [Print b] else if d then [] else [Print e]))"
  by simp

text \<open>
  Claim C3. When the first token, lowercased and with its alias resolved, is empty or not
  a key of the command registry, \<open>main\<close> prints the global help document (the formatted
  template), returns exit code 1 and runs no handler. After the document it prints
  exactly one of three things: the note \<^verbatim>\<open>You are seeing the default help text because
  you did not choose a command.\<close> when the token is empty; nothing when the token is one
  of \<^verbatim>\<open>help\<close>, \<^verbatim>\<open>-h\<close>, \<^verbatim>\<open>--help\<close>; and otherwise the note that holds the token between
  double quotes, \<^verbatim>\<open>You are seeing the default help text because "token" was not
  recognized\<close>. The two notes differ for every token, and the second one contains the
  token.
\<close>

theorem global_help_without_command:
  assumes "listget argv 0 [] = Inr token0"
    and "command = dict_get OLD_COMMAND_ALIASES (lower token0) (lower token0)"
    and "command = [] \<or> command \<notin> set (map fst MODULE_DOCSTRINGS)"
  shows "main env argv =
           (Print DOCSTRING #
              (if command = [] then
                 [Print ''You are seeing the default help text because you did not choose a command.'']
               else if command \<in> {''help'', ''-h'', ''--help''} then []
               else
                 [Print (''You are seeing the default help text because \"'' @ command @
                           ''\" was not recognized'')]),
            Inr 1) \<and>
         \<not> list_ex handler_event (fst (main env argv)) \<and>
         ''You are seeing the default help text because you did not choose a command.'' \<noteq>
           ''You are seeing the default help text because \"'' @ command @ ''\" was not recognized'' \<and>
         format_scan docstring_headers None DOCSTRING_template = Inr DOCSTRING"
proof -
  from assms(3) have unregistered: "command \<notin> set (map fst MODULE_DOCSTRINGS)"
    by (auto simp: MODULE_DOCSTRINGS_keys)
  have run: "main env argv =
      (Print DOCSTRING #
         (if command = [] then [Print no_command_note]
          else if command \<in> set helpstrings then []
          else [Print (unrecognized_note command)]),
       Inr 1)"
    by (rule main_global_help [OF assms(1,2) unregistered])
  have silent: "\<not> list_ex handler_event (fst (main env argv))"
    by (simp only: run fst_conv prints_only not_False_eq_True)
  have spelled: "main env argv =
      (Print DOCSTRING #
         (if command = [] then
            [Print ''You are seeing the default help text because you did not choose a command.'']
          else if command \<in> {''help'', ''-h'', ''--help''} then []
          else
            [Print (''You are seeing the default help text because \"'' @ command @
                      ''\" was not recognized'')]),
       Inr 1)"
    unfolding run by (simp add: no_command_note_def unrecognized_note_def helpstrings_def)
  have differ:
    "''You are seeing the default help text because you did not choose a command.'' \<noteq>
     ''You are seeing the default help text because \"'' @ command @ ''\" was not recognized''"
    by simp
  from spelled silent differ DOCSTRING_format show ?thesis
    by (intro conjI)
qed

theorem global_help_without_command_witness:
  "main (example_env [] (Inr PyNone)) [] =
     ([Print DOCSTRING,
       Print ''You are seeing the default help text because you did not choose a command.''],
      Inr 1) \<and>
   main (example_env [] (Inr PyNone)) [[]] =
     ([Print DOCSTRING,
       Print ''You are seeing the default help text because you did not choose a command.''],
      Inr 1) \<and>
   main (example_env [] (Inr PyNone)) [''BOGUS''] =
     ([Print DOCSTRING,
       Print ''You are seeing the default help text because \"bogus\" was not recognized''],
      Inr 1) \<and>
   main (example_env [] (Inr PyNone)) [''--Help'', ''get_comments''] = ([Print DOCSTRING], Inr 1)"
proof -
  let ?env = "example_env [] (Inr PyNone)"
  have l: "lower ''BOGUS'' = ''bogus''" "lower ''--Help'' = ''--help''" "lower [] = []"
    by (simp_all add: lower_def lower_char_def uppercase_chars_def lowercase_chars_def)
  have 1: "main ?env [] =
      ([Print DOCSTRING,
        Print ''You are seeing the default help text because you did not choose a command.''],
       Inr 1)"
    using global_help_without_command [where argv = "[]" and ?token0.0 = "[]" and command = "[]"
        and env = ?env]
    by (simp add: listget_def getitem_def l dict_get_def OLD_COMMAND_ALIASES_def)
  have 2: "main ?env [[]] =
      ([Print DOCSTRING,
        Print ''You are seeing the default help text because you did not choose a command.''],
       Inr 1)"
    using global_help_without_command [where argv = "[[]]" and ?token0.0 = "[]" and command = "[]"
        and env = ?env]
    by (simp add: listget_def getitem_def l dict_get_def OLD_COMMAND_ALIASES_def)
  have 3: "main ?env [''BOGUS''] =
      ([Print DOCSTRING,
        Print ''You are seeing the default help text because \"bogus\" was not recognized''],
       Inr 1)"
    using global_help_without_command [where argv = "[''BOGUS'']" and ?token0.0 = "''BOGUS''"
        and command = "''bogus''" and env = ?env]
    by (simp add: listget_def getitem_def l dict_get_def OLD_COMMAND_ALIASES_def
        MODULE_DOCSTRINGS_keys)
  have 4: "main ?env [''--Help'', ''get_comments''] = ([Print DOCSTRING], Inr 1)"
    using global_help_without_command [where argv = "[''--Help'', ''get_comments'']"
        and ?token0.0 = "''--Help''" and command = "''--help''" and env = ?env]
    by (simp add: listget_def getitem_def l dict_get_def OLD_COMMAND_ALIASES_def
        MODULE_DOCSTRINGS_keys)
  from 1 2 3 4 show ?thesis by simp
qed

text \<open>
  Claim C4. When the first token resolves to a registered command and the second token,
  lowercased, is empty (or absent) or one of \<^verbatim>\<open>help\<close>, \<^verbatim>\<open>-h\<close>, \<^verbatim>\<open>--help\<close>, \<open>main\<close> prints
  that command's full help text and nothing else, the text is not the global document,
  the exit code is 1 and no handler runs.
\<close>

theorem command_help:
  assumes "listget argv 0 [] = Inr token0"
    and "command = dict_get OLD_COMMAND_ALIASES (lower token0) (lower token0)"
    and "command \<in> set (map fst MODULE_DOCSTRINGS)"
    and "listget argv 1 [] = Inr token1"
    and "lower token1 \<in> set helpstrings"
  shows "\<exists>full_help. map_of MODULE_DOCSTRINGS command = Some full_help \<and>
           main env argv = ([Print full_help], Inr 1) \<and>
           full_help \<noteq> DOCSTRING \<and>
           \<not> list_ex handler_event (fst (main env argv))"
proof -
  from main_command_help [OF assms, of env] obtain full_help
    where "map_of MODULE_DOCSTRINGS command = Some full_help"
      and "main env argv = ([Print full_help], Inr 1)"
    by blast
  then show ?thesis
    by (auto dest: help_text_not_DOCSTRING)
qed

theorem command_help_witness:
  "main (example_env [] (Inr PyNone)) [''get_comments'', ''help''] = ([Print doc_get_comments], Inr 1) \<and>
   main (example_env [] (Inr PyNone)) [''REDMASH'', ''-H''] = ([Print doc_index], Inr 1) \<and>
   main (example_env [] (Inr PyNone)) [''getwiki''] = ([Print doc_getwiki], Inr 1) \<and>
   doc_get_comments \<noteq> DOCSTRING \<and> doc_index \<noteq> DOCSTRING \<and> doc_getwiki \<noteq> DOCSTRING"
proof -
  let ?env = "example_env [] (Inr PyNone)"
  have l: "lower ''help'' = ''help''" "lower ''REDMASH'' = ''redmash''" "lower ''-H'' = ''-h''"
    "lower [] = []"
    by (simp_all add: lower_def lower_char_def uppercase_chars_def lowercase_chars_def)
  have 1: "main ?env [''get_comments'', ''help''] = ([Print doc_get_comments], Inr 1) \<and>
      doc_get_comments \<noteq> DOCSTRING"
    using command_help [where argv = "[''get_comments'', ''help'']" and ?token0.0 = "''get_comments''"
        and command = "''get_comments''" and ?token1.0 = "''help''" and env = ?env]
    by (simp add: listget_def getitem_def l lower_names dict_get_def OLD_COMMAND_ALIASES_def
        MODULE_DOCSTRINGS_keys helpstrings_def) (simp add: MODULE_DOCSTRINGS_def)
  have 2: "main ?env [''REDMASH'', ''-H''] = ([Print doc_index], Inr 1) \<and> doc_index \<noteq> DOCSTRING"
    using command_help [where argv = "[''REDMASH'', ''-H'']" and ?token0.0 = "''REDMASH''"
        and command = "''index''" and ?token1.0 = "''-H''" and env = ?env]
    by (simp add: listget_def getitem_def l lower_names dict_get_def OLD_COMMAND_ALIASES_def
        MODULE_DOCSTRINGS_keys helpstrings_def) (simp add: MODULE_DOCSTRINGS_def)
  have 3: "main ?env [''getwiki''] = ([Print doc_getwiki], Inr 1) \<and> doc_getwiki \<noteq> DOCSTRING"
    using command_help [where argv = "[''getwiki'']" and ?token0.0 = "''getwiki''"
        and command = "''getwiki''" and ?token1.0 = "[]" and env = ?env]
    by (simp add: listget_def getitem_def l lower_names dict_get_def OLD_COMMAND_ALIASES_def
        MODULE_DOCSTRINGS_keys helpstrings_def) (simp add: MODULE_DOCSTRINGS_def)
  from 1 2 3 show ?thesis by simp
qed

text \<open>
  Claim C1. In the handler-invocation state (the first token resolves to a registered
  command, the second token is not a help spelling, and \<^verbatim>\<open>parse_args\<close> returns a
  namespace), when the handler \<^verbatim>\<open>args.func(args)\<close> raises \<^verbatim>\<open>DatabaseNotFound\<close>, \<open>main\<close>
  prints the exception's message followed by the hint line and returns exit code 1;
  when the handler raises anything else, the same exception leaves \<open>main\<close> and nothing is
  printed for it.
\<close>

theorem handler_failure:
  assumes "listget argv 0 [] = Inr token0"
    and "dict_get OLD_COMMAND_ALIASES (lower token0) (lower token0) \<in> set (map fst MODULE_DOCSTRINGS)"
    and "listget argv 1 [] = Inr token1"
    and "lower token1 \<notin> set helpstrings"
    and "parse_args env argv = Inr args"
    and "call_func env args = (trace, Inl e)"
  shows "(\<forall>message. e = DatabaseNotFound message \<longrightarrow>
            main env argv = (trace @ [Print (message @ collect_hint)], Inr 1)) \<and>
         ((\<forall>message. e \<noteq> DatabaseNotFound message) \<longrightarrow> main env argv = (trace, Inl e))"
  using main_handler_raises [OF assms] by (cases e) simp_all

theorem handler_failure_witness:
  "main (example_env [(''subreddit'', PyStr ''test'')] (Inl (DatabaseNotFound ''Database file not found'')))
      [''timesearch'', ''-r'', ''test''] =
     ([Import ''get_submissions'',
       Call ''get_submissions''
         \<lparr>func = Some get_submissions_gateway, options = [(''subreddit'', PyStr ''test'')]\<rparr>,
       Print ''Database file not found\<newline>Have you used any of the other utilities to collect data?''],
      Inr 1) \<and>
   main (example_env [(''subreddit'', PyStr ''test'')] (Inl (OtherFailure ''ConnectionError'')))
      [''timesearch'', ''-r'', ''test''] =
     ([Import ''get_submissions'',
       Call ''get_submissions''
         \<lparr>func = Some get_submissions_gateway, options = [(''subreddit'', PyStr ''test'')]\<rparr>],
      Inl (OtherFailure ''ConnectionError''))"
proof -
  let ?opts = "[(''subreddit'', PyStr ''test'')]"
  let ?args = "\<lparr>func = Some get_submissions_gateway, options = ?opts\<rparr>"
  let ?argv = "[''timesearch'', ''-r'', ''test'']"
  let ?trace = "[Import ''get_submissions'', Call ''get_submissions'' ?args]"
  have t0: "listget ?argv 0 [] = Inr ''timesearch''" and t1: "listget ?argv 1 [] = Inr ''-r''"
    by (simp_all add: listget_def getitem_def)
  have c: "dict_get OLD_COMMAND_ALIASES (lower ''timesearch'') (lower ''timesearch'')
      \<in> set (map fst MODULE_DOCSTRINGS)"
    by (simp add: lower_names dict_get_def OLD_COMMAND_ALIASES_def MODULE_DOCSTRINGS_keys)
  have h: "lower ''-r'' \<notin> set helpstrings"
    by (simp add: lower_def lower_char_def uppercase_chars_def lowercase_chars_def helpstrings_def)
  have p: "parse_args (example_env ?opts r) ?argv = Inr ?args" for r
    by (simp add: parse_args_def example_env_def subparser_names_def)
  have f: "call_func (example_env ?opts (Inl e)) ?args = (?trace, Inl e)" for e
    by (simp add: call_func_def call_gateway_def example_env_def)
  from handler_failure [OF t0 c t1 h p f, of "DatabaseNotFound ''Database file not found''"]
    handler_failure [OF t0 c t1 h p f, of "OtherFailure ''ConnectionError''"]
  show ?thesis
    by (simp add: collect_hint_def)
qed




lemma main_trace_of_handler:
  assumes "listget argv 0 [] = Inr token0"
    and "dict_get OLD_COMMAND_ALIASES (lower token0) (lower token0) \<in> set (map fst MODULE_DOCSTRINGS)"
    and "listget argv 1 [] = Inr token1"
    and "lower token1 \<notin> set helpstrings"
    and "Import m \<in> set (fst (main env argv))"
  shows "\<exists>args g. parse_args env argv = Inr args \<and> func args = Some g \<and> module_of g = m \<and>
           hd (fst (main env argv)) = Import m"
proof (cases "parse_args env argv")
  case (Inl e)
  from main_parse_raises [OF assms(1-4) Inl] assms(5) show ?thesis
    by simp
next
  case (Inr args)
  obtain trace r where cf: "call_func env args = (trace, r)"
    by (cases "call_func env args")
  have "\<exists>extra. fst (main env argv) = trace @ extra \<and> (\<forall>ev\<in>set extra. \<not> handler_event ev)"
  proof (cases r)
    case (Inl e)
    with main_handler_raises [OF assms(1-4) Inr] cf show ?thesis
      by (cases e) auto
  next
    case r: (Inr v)
    with main_handler_returns [OF assms(1-4) Inr] cf show ?thesis
      by auto
  qed
  then obtain extra where tr: "fst (main env argv) = trace @ extra"
    and extra: "\<forall>ev\<in>set extra. \<not> handler_event ev"
    by blast
  from assms(5) tr extra have "Import m \<in> set trace"
    by auto
  with call_func_trace [OF cf] obtain g where "func args = Some g"
    and "trace = [Import (module_of g)] \<or> trace = [Import (module_of g), Call (module_of g) args]"
    and "m = module_of g"
    by auto
  with Inr tr show ?thesis
    by auto
qed

text \<open>
  Claim C7. What the module does when it is loaded imports no collaborator module: its
  imports are \<^verbatim>\<open>argparse\<close>, \<^verbatim>\<open>sys\<close> and \<^verbatim>\<open>exceptions\<close>, and the registry, the headers and
  the global help document are values of text functions. A dispatch that ends in a help
  state (no registered command, or a help request for a command) has no handler event
  in its trace. When \<open>main\<close> does import a module, this is the module of the resolved
  command, the parser has returned a namespace whose \<^verbatim>\<open>func\<close> is that module's gateway,
  the invocation is in the handler-invocation state, and the import is the first thing
  the handler does.
\<close>

theorem lazy_loading:
  assumes "listget argv 0 [] = Inr token0"
    and "command = dict_get OLD_COMMAND_ALIASES (lower token0) (lower token0)"
    and "listget argv 1 [] = Inr token1"
  shows "set module_level_imports \<inter> set (map module_of gateways) = {} \<and>
         (command \<notin> set (map fst MODULE_DOCSTRINGS) \<or> lower token1 \<in> set helpstrings \<longrightarrow>
            \<not> list_ex handler_event (fst (main env argv))) \<and>
         (Import m \<in> set (fst (main env argv)) \<longrightarrow>
            m = command \<and> command \<in> set (map fst MODULE_DOCSTRINGS) \<and>
            lower token1 \<notin> set helpstrings \<and>
            (\<exists>args g. parse_args env argv = Inr args \<and> func args = Some g \<and> module_of g = m) \<and>
            hd (fst (main env argv)) = Import m)"
proof (intro conjI impI)
  show "set module_level_imports \<inter> set (map module_of gateways) = {}"
    by (simp add: module_level_imports_def gateways_def)
next
  assume ends_in_help: "command \<notin> set (map fst MODULE_DOCSTRINGS) \<or> lower token1 \<in> set helpstrings"
  show "\<not> list_ex handler_event (fst (main env argv))"
  proof (cases "command \<in> set (map fst MODULE_DOCSTRINGS)")
    case False
    from main_global_help [OF assms(1,2) False, of env] show ?thesis
      by (simp only: fst_conv prints_only not_False_eq_True)
  next
    case True
    with ends_in_help have "lower token1 \<in> set helpstrings"
      by simp
    from main_command_help [OF assms(1,2) True assms(3) this, of env] show ?thesis
      by auto
  qed
next
  assume imp: "Import m \<in> set (fst (main env argv))"
  have reg: "command \<in> set (map fst MODULE_DOCSTRINGS)"
  proof (rule ccontr)
    assume "command \<notin> set (map fst MODULE_DOCSTRINGS)"
    from main_global_help [OF assms(1,2) this, of env] imp show False
      by (auto split: if_splits)
  qed
  have nohelp: "lower token1 \<notin> set helpstrings"
  proof
    assume "lower token1 \<in> set helpstrings"
    from main_command_help [OF assms(1,2) reg assms(3) this, of env] imp show False
      by auto
  qed
  from reg have reg': "dict_get OLD_COMMAND_ALIASES (lower token0) (lower token0)
      \<in> set (map fst MODULE_DOCSTRINGS)"
    by (simp add: assms(2))
  from main_trace_of_handler [OF assms(1) reg' assms(3) nohelp imp]
  obtain args g where p: "parse_args env argv = Inr args" and g: "func args = Some g"
    and m: "module_of g = m" and first: "hd (fst (main env argv)) = Import m"
    by blast
  from registered_not_option [OF reg'] have t0: "token0 \<noteq> []" "hd token0 \<noteq> CHR ''-''"
    by simp_all
  with listget_first [OF assms(1)] obtain rest where argv: "argv = token0 # rest"
    by blast
  from p g have "map_of subparser_names token0 = Some g"
    unfolding argv parse_args_command [OF t0]
    by (auto split: option.splits sum.splits)
  from subparser_module [OF this] m have "m = command"
    by (simp add: assms(2))
  with reg nohelp p g m first
  show "m = command" "command \<in> set (map fst MODULE_DOCSTRINGS)"
    "lower token1 \<notin> set helpstrings"
    "\<exists>args g. parse_args env argv = Inr args \<and> func args = Some g \<and> module_of g = m"
    "hd (fst (main env argv)) = Import m"
    by auto
qed

theorem lazy_loading_witness:
  "Import ''index'' \<in> set (fst (main (example_env [] (Inr PyNone)) [''redmash'', ''--all''])) \<and>
   parse_args (example_env [] (Inr PyNone)) [''redmash'', ''--all''] =
     Inr \<lparr>func = Some index_gateway, options = []\<rparr> \<and>
   module_of index_gateway = ''index'' \<and>
   hd (fst (main (example_env [] (Inr PyNone)) [''redmash'', ''--all''])) = Import ''index'' \<and>
   \<not> list_ex handler_event (fst (main (example_env [] (Inr PyNone)) [''redmash''])) \<and>
   \<not> list_ex handler_event (fst (main (example_env [] (Inr PyNone)) [''nothing'', ''--all'']))"
proof -
  let ?env = "example_env [] (Inr PyNone)"
  have l: "lower ''--all'' = ''--all''" "lower ''nothing'' = ''nothing''" "lower [] = []"
    by (simp_all add: lower_def lower_char_def uppercase_chars_def lowercase_chars_def)
  have run: "main ?env [''redmash'', ''--all''] =
      ([Import ''index'', Call ''index'' \<lparr>func = Some index_gateway, options = []\<rparr>], Inr 0)"
    by (simp add: main_def Let_def listget_def getitem_def lower_names l dict_get_def
        OLD_COMMAND_ALIASES_def MODULE_DOCSTRINGS_keys helpstrings_def parse_args_def
        subparser_names_def call_func_def call_gateway_def example_env_def)
  have 1: "Import ''index'' \<in> set (fst (main ?env [''redmash'', ''--all''])) \<and>
      parse_args ?env [''redmash'', ''--all''] = Inr \<lparr>func = Some index_gateway, options = []\<rparr> \<and>
      module_of index_gateway = ''index'' \<and>
      hd (fst (main ?env [''redmash'', ''--all''])) = Import ''index''"
    using lazy_loading [where argv = "[''redmash'', ''--all'']" and ?token0.0 = "''redmash''"
        and command = "''index''" and ?token1.0 = "''--all''" and env = ?env and m = "''index''"]
    by (simp add: run) (simp add: parse_args_def subparser_names_def example_env_def)
  have 2: "\<not> list_ex handler_event (fst (main ?env [''redmash'']))"
    using lazy_loading [where argv = "[''redmash'']" and ?token0.0 = "''redmash''"
        and command = "''index''" and ?token1.0 = "[]" and env = ?env]
    by (simp add: listget_def getitem_def lower_names l dict_get_def OLD_COMMAND_ALIASES_def
        helpstrings_def)
  have 3: "\<not> list_ex handler_event (fst (main ?env [''nothing'', ''--all'']))"
    using lazy_loading [where argv = "[''nothing'', ''--all'']" and ?token0.0 = "''nothing''"
        and command = "''nothing''" and ?token1.0 = "''--all''" and env = ?env]
    by (simp add: listget_def getitem_def lower_names l dict_get_def OLD_COMMAND_ALIASES_def
        MODULE_DOCSTRINGS_keys)
  from 1 2 3 show ?thesis by simp
qed

text \<open>
  Claim C10. \<open>main\<close> lowercases the first two tokens for its own decisions and hands the
  argument vector to \<^verbatim>\<open>parse_args\<close> as it received it. So when the first token resolves
  to a registered command, the second token is not a help spelling, and the first token
  as spelled is none of the names the parser registers, \<^verbatim>\<open>parse_args\<close> rejects the
  vector with \<^verbatim>\<open>SystemExit(2)\<close>, which leaves \<open>main\<close>, and no handler runs.
\<close>

theorem parser_rejects_respelled_command:
  assumes "listget argv 0 [] = Inr token0"
    and "dict_get OLD_COMMAND_ALIASES (lower token0) (lower token0) \<in> set (map fst MODULE_DOCSTRINGS)"
    and "token0 \<notin> set (map fst subparser_names)"
    and "listget argv 1 [] = Inr token1"
    and "lower token1 \<notin> set helpstrings"
  shows "parse_args env argv = Inl (SystemExit 2) \<and>
         main env argv = ([], Inl (SystemExit 2)) \<and>
         \<not> list_ex handler_event (fst (main env argv))"
proof -
  from registered_not_option [OF assms(2)] have t0: "token0 \<noteq> []" "hd token0 \<noteq> CHR ''-''"
    by simp_all
  with listget_first [OF assms(1)] obtain rest where argv: "argv = token0 # rest"
    by blast
  from assms(3) have "map_of subparser_names token0 = None"
    by (simp add: map_of_eq_None_iff)
  then have p: "parse_args env argv = Inl (SystemExit 2)"
    unfolding argv parse_args_command [OF t0] by simp
  from main_parse_raises [OF assms(1,2,4,5) p] p show ?thesis
    by simp
qed

theorem parser_rejects_respelled_command_witness:
  "main (example_env [] (Inr PyNone)) [''Breakdown'', ''-r'', ''test''] = ([], Inl (SystemExit 2)) \<and>
   main (example_env [] (Inr PyNone)) [''TIMESEARCH'', ''-r'', ''test''] = ([], Inl (SystemExit 2)) \<and>
   parse_args (example_env [] (Inr PyNone)) [''Breakdown'', ''-r'', ''test''] = Inl (SystemExit 2)"
proof -
  let ?env = "example_env [] (Inr PyNone)"
  have l: "lower ''Breakdown'' = ''breakdown''" "lower ''TIMESEARCH'' = ''timesearch''"
    "lower ''-r'' = ''-r''"
    by (simp_all add: lower_def lower_char_def uppercase_chars_def lowercase_chars_def)
  have 1: "main ?env [''Breakdown'', ''-r'', ''test''] = ([], Inl (SystemExit 2)) \<and>
      parse_args ?env [''Breakdown'', ''-r'', ''test''] = Inl (SystemExit 2)"
    using parser_rejects_respelled_command [where argv = "[''Breakdown'', ''-r'', ''test'']"
        and ?token0.0 = "''Breakdown''" and ?token1.0 = "''-r''" and env = ?env]
    by (simp add: listget_def getitem_def l dict_get_def OLD_COMMAND_ALIASES_def
        MODULE_DOCSTRINGS_keys helpstrings_def subparser_names_def)
  have 2: "main ?env [''TIMESEARCH'', ''-r'', ''test''] = ([], Inl (SystemExit 2))"
    using parser_rejects_respelled_command [where argv = "[''TIMESEARCH'', ''-r'', ''test'']"
        and ?token0.0 = "''TIMESEARCH''" and ?token1.0 = "''-r''" and env = ?env]
    by (simp add: listget_def getitem_def l dict_get_def OLD_COMMAND_ALIASES_def
        MODULE_DOCSTRINGS_keys helpstrings_def subparser_names_def)
  from 1 2 show ?thesis by simp
qed

end
